theory Spec2Isabelle
  imports Complex_Main
begin

section \<open>Data model of server.js\<close>

text \<open>
  A column of type TEXT holds a string or NULL; the JavaScript value read back is a
  string or \<open>null\<close>. JavaScript tests such a value for truthiness (\<open>!tokens?.access_token\<close>):
  \<open>null\<close>, \<open>undefined\<close> and the empty string are falsy.
\<close>

definition truthy :: "string option \<Rightarrow> bool" where
  "truthy v = (case v of None \<Rightarrow> False | Some s \<Rightarrow> s \<noteq> [])"

text \<open>
  The object \<open>{access_token, refresh_token, expires_at}\<close> built in \<open>refreshToken\<close> and in the
  callback handler, and the row of the table \<open>tokens\<close> (its \<open>id\<close> column is the key of the
  table below). The token response of the upstream authorization server carries the same
  pair and a lifetime \<open>expires_in\<close> in seconds. Times are integers (epoch milliseconds,
  column type BIGINT).
\<close>

record token_pair =
  access_token :: "string option"
  refresh_token :: "string option"

record token_data = token_pair +
  expires_at :: int

record oauth_data = token_pair +
  expires_in :: int

text \<open>The two grants posted to \<open>/v2/oauth2/token\<close> (the \<open>params\<close> that vary).\<close>

datatype grant =
    refresh_token_grant string
  | authorization_code_grant "string option"

text \<open>One glucose reading of \<open>response.data.records\<close>; the handlers read these two fields.\<close>

record reading =
  systemTime :: string
  "value" :: int

text \<open>What a rejected promise or a \<open>throw\<close> carries.\<close>

datatype error =
    QueryError string                    \<comment> \<open>\<open>pool.query\<close> rejected, with its message\<close>
  | AxiosError "string option" string    \<comment> \<open>\<open>error.response?.data\<close> and \<open>error.message\<close>\<close>
  | JsError string                       \<comment> \<open>\<open>new Error(message)\<close>\<close>
  | ReferenceError string                \<comment> \<open>an identifier that is not defined\<close>

text \<open>
  Every call that leaves the process is recorded, in order, together with each entry into
  \<open>refreshToken\<close>.
\<close>

datatype event =
    Select                                          \<comment> \<open>\<open>SELECT * FROM tokens WHERE id = 1\<close>\<close>
  | Upsert token_data                               \<comment> \<open>\<open>INSERT ... ON CONFLICT (id) DO UPDATE\<close>\<close>
  | RefreshCall                                     \<comment> \<open>\<open>refreshToken()\<close> entered\<close>
  | TokenPost grant                                 \<comment> \<open>\<open>axios.post\<close> to the token endpoint\<close>
  | EgvsGet string "string option" "string option"  \<comment> \<open>\<open>axios.get\<close> of the readings\<close>
  | Render                                          \<comment> \<open>\<open>renderToBuffer\<close>\<close>

text \<open>
  The state the handlers act on: the table \<open>tokens\<close> (primary key \<open>id\<close> to the other three
  columns), the clock read by \<open>Date.now()\<close>, and the record of calls. \<open>since w w'\<close> are the
  calls made on the way from \<open>w\<close> to \<open>w'\<close>.
\<close>

record world =
  tokens_table :: "int \<rightharpoonup> token_data"
  clock :: int
  calls :: "event list"

definition since :: "world \<Rightarrow> world \<Rightarrow> event list" where
  "since w w' = drop (length (calls w)) (calls w')"

text \<open>
  What the program does not decide: whether a query issued at a given time is rejected,
  how long an awaited call takes, and what the upstream servers and the chart renderer
  answer. A failed HTTP call answers with the pair \<open>error.response?.data\<close> and
  \<open>error.message\<close>, a failed rendering with its message. The client id, client secret and
  redirect URI are fixed by the process environment and belong to the token endpoint's
  answer function.
\<close>

record env =
  db_error :: "int \<Rightarrow> string option"
  elapse :: "int \<Rightarrow> int"
  oauth2_token :: "int \<Rightarrow> grant \<Rightarrow> (string option \<times> string) + oauth_data"
  egvs :: "int \<Rightarrow> string \<Rightarrow> string option \<Rightarrow> string option
             \<Rightarrow> (string option \<times> string) + reading list"
  toLocaleTimeString :: "string \<Rightarrow> string"
  renderToBuffer :: "string list \<Rightarrow> int list \<Rightarrow> string + nat list"

text \<open>A rejected \<open>axios\<close> call throws an error carrying the response data and a message.\<close>

definition axios_result :: "(string option \<times> string) + 'a \<Rightarrow> error + 'a" where
  "axios_result r = (case r of Inl (d, m) \<Rightarrow> Inl (AxiosError d m) | Inr x \<Rightarrow> Inr x)"

text \<open>An awaited external call: it is recorded, and time passes until it settles.\<close>

definition await :: "env \<Rightarrow> event \<Rightarrow> world \<Rightarrow> world" where
  "await e ev w = w\<lparr>clock := elapse e (clock w), calls := calls w @ [ev]\<rparr>"

section \<open>Token management functions\<close>

text \<open>
  \<open>saveTokens\<close>: the upsert of the row with \<open>id = 1\<close>, whose three other columns are the
  three fields of \<open>tokenData\<close>; \<open>RETURNING *\<close> gives the row written. A rejected query
  changes nothing and is rethrown.
\<close>

definition saveTokens :: "env \<Rightarrow> token_data \<Rightarrow> world \<Rightarrow> (error + token_data) \<times> world" where
  "saveTokens e tokenData w =
     (let w' = await e (Upsert tokenData) w
      in case db_error e (clock w) of
           Some msg \<Rightarrow> (Inl (QueryError msg), w')
         | None \<Rightarrow> (Inr tokenData, w'\<lparr>tokens_table := (tokens_table w)(1 \<mapsto> tokenData)\<rparr>))"

text \<open>\<open>getTokens\<close>: \<open>result.rows[0] || null\<close>, the row with \<open>id = 1\<close> or \<open>null\<close>.\<close>

definition getTokens :: "env \<Rightarrow> world \<Rightarrow> (error + token_data option) \<times> world" where
  "getTokens e w =
     (let w' = await e Select w
      in case db_error e (clock w) of
           Some msg \<Rightarrow> (Inl (QueryError msg), w')
         | None \<Rightarrow> (Inr (tokens_table w 1), w'))"

text \<open>\<open>axios.post('https://api.dexcom.com/v2/oauth2/token', ...)\<close>.\<close>

definition post_token :: "env \<Rightarrow> grant \<Rightarrow> world \<Rightarrow> (error + oauth_data) \<times> world" where
  "post_token e g w = (axios_result (oauth2_token e (clock w) g), await e (TokenPost g) w)"

text \<open>
  \<open>refreshToken\<close>. The optional chain \<open>tokens?.refresh_token\<close> is falsy when there is no row,
  when the column is NULL and when it is the empty string.
\<close>

definition refreshToken :: "env \<Rightarrow> world \<Rightarrow> (error + token_data) \<times> world" where
  "refreshToken e w =
     (case getTokens e (w\<lparr>calls := calls w @ [RefreshCall]\<rparr>) of
        (Inl err, w1) \<Rightarrow> (Inl err, w1)
      | (Inr None, w1) \<Rightarrow> (Inl (JsError ''No refresh token available''), w1)
      | (Inr (Some tokens), w1) \<Rightarrow>
          (case refresh_token tokens of
             None \<Rightarrow> (Inl (JsError ''No refresh token available''), w1)
           | Some rt \<Rightarrow>
               if rt = [] then (Inl (JsError ''No refresh token available''), w1)
               else
                 (case post_token e (refresh_token_grant rt) w1 of
                    (Inl err, w2) \<Rightarrow> (Inl err, w2)
                  | (Inr data, w2) \<Rightarrow>
                      (let newTokens = \<lparr>access_token = access_token data,
                                        refresh_token = refresh_token data,
                                        expires_at = clock w2 + expires_in data * 1000\<rparr>
                       in saveTokens e newTokens w2))))"

section \<open>Responses\<close>

text \<open>The query string of the three data-fetch routes.\<close>

record date_range =
  startDate :: "string option"
  endDate :: "string option"

text \<open>
  A JavaScript number as the trends computation can produce it. Readings are integers,
  their sum is exact, and a finite quotient is kept as the exact rational (the double
  nearest to it in the program; the same number whenever the quotient is representable).
\<close>

datatype jsnum = Fin rat | NaN | Infinity | NegInfinity

record analysis =
  average :: jsnum
  highest :: jsnum
  lowest :: jsnum
  count :: nat

datatype body =
    error_body string "string option"   \<comment> \<open>\<open>{error}\<close> or \<open>{error, details}\<close>\<close>
  | message_body string                 \<comment> \<open>\<open>{message}\<close>\<close>
  | records_body "reading list"
  | tokens_body oauth_data              \<comment> \<open>\<open>{access_token, refresh_token, expires_in}\<close>\<close>
  | analysis_body analysis
  | image_body "nat list"

record response =
  status :: nat
  content_type :: string
  body :: body

text \<open>\<open>res.status(code).json(b)\<close>; \<open>res.json(b)\<close> is \<open>json 200 b\<close>.\<close>

definition json :: "nat \<Rightarrow> body \<Rightarrow> response" where
  "json code b = \<lparr>status = code, content_type = ''application/json'', body = b\<rparr>"

text \<open>\<open>error.response?.data || error.message\<close>.\<close>

fun details :: "error \<Rightarrow> string" where
  "details (AxiosError (Some d) m) = (if d \<noteq> [] then d else m)"
| "details (AxiosError None m) = m"
| "details (QueryError m) = m"
| "details (JsError m) = m"
| "details (ReferenceError n) = n @ '' is not defined''"

text \<open>The template string \<open>`Bearer ${tokens.access_token}`\<close>; \<open>null\<close> prints as \<open>null\<close>.\<close>

definition bearer :: "string option \<Rightarrow> string" where
  "bearer a = ''Bearer '' @ (case a of None \<Rightarrow> ''null'' | Some s \<Rightarrow> s)"

text \<open>\<open>axios.get('https://api.dexcom.com/v2/users/self/egvs', ...)\<close>, giving \<open>response.data.records\<close>.\<close>

definition get_egvs :: "env \<Rightarrow> token_data \<Rightarrow> date_range \<Rightarrow> world \<Rightarrow> (error + reading list) \<times> world" where
  "get_egvs e tokens q w =
     (axios_result (egvs e (clock w) (bearer (access_token tokens)) (startDate q) (endDate q)),
      await e (EgvsGet (bearer (access_token tokens)) (startDate q) (endDate q)) w)"

section \<open>Auth callback and refresh endpoints\<close>

definition auth_callback :: "env \<Rightarrow> string option \<Rightarrow> world \<Rightarrow> response \<times> world" where
  "auth_callback e code w =
     (case post_token e (authorization_code_grant code) w of
        (Inl error, w1) \<Rightarrow> (json 500 (error_body ''Token exchange failed'' None), w1)
      | (Inr data, w1) \<Rightarrow>
          (let tokens = \<lparr>access_token = access_token data,
                         refresh_token = refresh_token data,
                         expires_at = clock w1 + expires_in data * 1000\<rparr>
           in case saveTokens e tokens w1 of
                (Inl error, w2) \<Rightarrow> (json 500 (error_body ''Token exchange failed'' None), w2)
              | (Inr saved, w2) \<Rightarrow> (json 200 (message_body ''Authorization successful''), w2)))"

text \<open>\<open>Math.floor\<close> of an integer quotient is \<open>div\<close> on \<open>int\<close>, which rounds down.\<close>

definition auth_refresh :: "env \<Rightarrow> world \<Rightarrow> response \<times> world" where
  "auth_refresh e w =
     (case refreshToken e w of
        (Inl error, w1) \<Rightarrow> (json 500 (error_body ''Token refresh failed'' None), w1)
      | (Inr tokens, w1) \<Rightarrow>
          (json 200 (tokens_body \<lparr>access_token = access_token tokens,
                                  refresh_token = refresh_token tokens,
                                  expires_in = (expires_at tokens - clock w1) div 1000\<rparr>), w1))"

section \<open>Glucose endpoint\<close>

definition glucose_failed :: "error \<Rightarrow> response" where
  "glucose_failed error =
     json 500 (error_body ''Failed to fetch glucose data'' (Some (details error)))"

definition glucose :: "env \<Rightarrow> date_range \<Rightarrow> world \<Rightarrow> response \<times> world" where
  "glucose e q w =
     (case getTokens e w of
        (Inl error, w1) \<Rightarrow> (glucose_failed error, w1)
      | (Inr None, w1) \<Rightarrow>
          (json 401 (error_body ''Not authorized. Please complete OAuth flow first.'' None), w1)
      | (Inr (Some tokens), w1) \<Rightarrow>
          if \<not> truthy (access_token tokens)
          then (json 401 (error_body ''Not authorized. Please complete OAuth flow first.'' None), w1)
          else
            (case (if clock w1 > expires_at tokens then refreshToken e w1 else (Inr tokens, w1)) of
               (Inl error, w2) \<Rightarrow> (glucose_failed error, w2)
             | (Inr tokens', w2) \<Rightarrow>
                 (case get_egvs e tokens' q w2 of
                    (Inl error, w3) \<Rightarrow> (glucose_failed error, w3)
                  | (Inr records, w3) \<Rightarrow> (json 200 (records_body records), w3))))"

section \<open>Trends endpoint\<close>

text \<open>
  \<open>a / b\<close> on finite numbers, \<open>b\<close> not negative zero: a zero divisor gives \<open>NaN\<close> for \<open>0 / 0\<close>
  and an infinity otherwise.
\<close>

definition js_divide :: "rat \<Rightarrow> rat \<Rightarrow> jsnum" where
  "js_divide a b =
     (if b = 0 then (if a = 0 then NaN else if a > 0 then Infinity else NegInfinity)
      else Fin (a / b))"

text \<open>
  \<open>Math.max(...values)\<close> and \<open>Math.min(...values)\<close>: with no argument they are \<open>-Infinity\<close> and
  \<open>Infinity\<close>.
\<close>

definition Math_max :: "int list \<Rightarrow> jsnum" where
  "Math_max values = (case values of [] \<Rightarrow> NegInfinity | v # vs \<Rightarrow> Fin (of_int (fold max vs v)))"

definition Math_min :: "int list \<Rightarrow> jsnum" where
  "Math_min values = (case values of [] \<Rightarrow> Infinity | v # vs \<Rightarrow> Fin (of_int (fold min vs v)))"

text \<open>The object \<open>analysis\<close> of the handler, from \<open>values = readings.map(r => r.value)\<close>.\<close>

definition trends_analysis :: "int list \<Rightarrow> analysis" where
  "trends_analysis values =
     \<lparr>average = js_divide (of_int (foldl (\<lambda>a b. a + b) 0 values)) (of_nat (length values)),
      highest = Math_max values,
      lowest = Math_min values,
      count = length values\<rparr>"

definition trends :: "env \<Rightarrow> date_range \<Rightarrow> world \<Rightarrow> response \<times> world" where
  "trends e q w =
     (case getTokens e w of
        (Inl error, w1) \<Rightarrow> (json 500 (error_body ''Failed to analyze trends'' None), w1)
      | (Inr None, w1) \<Rightarrow> (json 401 (error_body ''Not authorized'' None), w1)
      | (Inr (Some tokens), w1) \<Rightarrow>
          if \<not> truthy (access_token tokens)
          then (json 401 (error_body ''Not authorized'' None), w1)
          else
            (case (if clock w1 > expires_at tokens then refreshToken e w1 else (Inr tokens, w1)) of
               (Inl error, w2) \<Rightarrow> (json 500 (error_body ''Failed to analyze trends'' None), w2)
             | (Inr tokens', w2) \<Rightarrow>
                 (case get_egvs e tokens' q w2 of
                    (Inl error, w3) \<Rightarrow> (json 500 (error_body ''Failed to analyze trends'' None), w3)
                  | (Inr readings, w3) \<Rightarrow>
                      (json 200 (analysis_body (trends_analysis (map value readings))), w3))))"

section \<open>Charts endpoint\<close>

text \<open>
  The identifiers bound at the top level of server.js, and the globals of the runtime it
  refers to. Evaluating any other free identifier throws a \<open>ReferenceError\<close>.
\<close>

definition module_scope :: "string list" where
  "module_scope = [''express'', ''Pool'', ''axios'', ''cors'', ''app'', ''pool'',
     ''initializeDatabase'', ''saveTokens'', ''getTokens'', ''refreshToken'', ''PORT'']"

definition runtime_globals :: "string list" where
  "runtime_globals = [''require'', ''process'', ''console'', ''Date'', ''Math'', ''Error'']"

definition resolve :: "string \<Rightarrow> error + unit" where
  "resolve name =
     (if name \<in> set module_scope \<or> name \<in> set runtime_globals then Inr ()
      else Inl (ReferenceError name))"

text \<open>
  The handler evaluates \<open>new ChartJSNodeCanvas(...)\<close> right after the readings arrive, and
  only then builds the chart configuration (labels and data) and renders it.
\<close>

definition charts :: "env \<Rightarrow> date_range \<Rightarrow> world \<Rightarrow> response \<times> world" where
  "charts e q w =
     (case getTokens e w of
        (Inl error, w1) \<Rightarrow> (json 500 (error_body ''Failed to generate chart'' None), w1)
      | (Inr None, w1) \<Rightarrow> (json 401 (error_body ''Not authorized'' None), w1)
      | (Inr (Some tokens), w1) \<Rightarrow>
          if \<not> truthy (access_token tokens)
          then (json 401 (error_body ''Not authorized'' None), w1)
          else
            (case (if clock w1 > expires_at tokens then refreshToken e w1 else (Inr tokens, w1)) of
               (Inl error, w2) \<Rightarrow> (json 500 (error_body ''Failed to generate chart'' None), w2)
             | (Inr tokens', w2) \<Rightarrow>
                 (case get_egvs e tokens' q w2 of
                    (Inl error, w3) \<Rightarrow> (json 500 (error_body ''Failed to generate chart'' None), w3)
                  | (Inr readings, w3) \<Rightarrow>
                      (case resolve ''ChartJSNodeCanvas'' of
                         Inl error \<Rightarrow> (json 500 (error_body ''Failed to generate chart'' None), w3)
                       | Inr chartJSNodeCanvas \<Rightarrow>
                           (let labels = map (\<lambda>r. toLocaleTimeString e (systemTime r)) readings;
                                data = map value readings;
                                w4 = await e Render w3
                            in case renderToBuffer e labels data of
                                 Inl message \<Rightarrow>
                                   (json 500 (error_body ''Failed to generate chart'' None), w4)
                               | Inr buffer \<Rightarrow>
                                   (\<lparr>status = 200, content_type = ''image/png'',
                                     body = image_body buffer\<rparr>, w4))))))"

section \<open>Requests served one after the other\<close>

datatype request =
    POST_auth_callback "string option"
  | GET_glucose date_range
  | POST_auth_refresh
  | GET_trends date_range
  | GET_charts date_range

fun handle :: "env \<Rightarrow> request \<Rightarrow> world \<Rightarrow> response \<times> world" where
  "handle e (POST_auth_callback code) w = auth_callback e code w"
| "handle e (GET_glucose q) w = glucose e q w"
| "handle e POST_auth_refresh w = auth_refresh e w"
| "handle e (GET_trends q) w = trends e q w"
| "handle e (GET_charts q) w = charts e q w"

fun serve :: "env \<Rightarrow> request list \<Rightarrow> world \<Rightarrow> world" where
  "serve e [] w = w"
| "serve e (r # rs) w = serve e rs (snd (handle e r w))"

section \<open>A concrete environment and store\<close>

text \<open>
  A database that accepts every query, calls that take 5 ms, a token endpoint that answers
  with a fresh pair valid for 7200 s, and an upstream that returns three readings.
\<close>

definition sample_readings :: "reading list" where
  "sample_readings =
     [\<lparr>systemTime = ''2024-01-01T08:00:00'', value = 100\<rparr>,
      \<lparr>systemTime = ''2024-01-01T08:05:00'', value = 150\<rparr>,
      \<lparr>systemTime = ''2024-01-01T08:10:00'', value = 200\<rparr>]"

definition sample_env :: "reading list \<Rightarrow> env" where
  "sample_env rs =
     \<lparr>db_error = (\<lambda>t. None),
      elapse = (\<lambda>t. t + 5),
      oauth2_token = (\<lambda>t g. Inr \<lparr>access_token = Some ''A2'', refresh_token = Some ''R2'',
                                  expires_in = 7200\<rparr>),
      egvs = (\<lambda>t b s u. Inr rs),
      toLocaleTimeString = (\<lambda>s. s),
      renderToBuffer = (\<lambda>ls ds. Inr [137, 80, 78, 71])\<rparr>"

text \<open>A store holding one record that expires at time 1000, read at a given time.\<close>

definition sample_tokens :: "string option \<Rightarrow> token_data" where
  "sample_tokens rt = \<lparr>access_token = Some ''A1'', refresh_token = rt, expires_at = 1000\<rparr>"

definition sample_world :: "string option \<Rightarrow> int \<Rightarrow> world" where
  "sample_world rt t = \<lparr>tokens_table = [1 \<mapsto> sample_tokens rt], clock = t, calls = []\<rparr>"

definition empty_world :: "int \<Rightarrow> world" where
  "empty_world t = \<lparr>tokens_table = Map.empty, clock = t, calls = []\<rparr>"

definition sample_range :: date_range where
  "sample_range = \<lparr>startDate = Some ''2024-01-01'', endDate = Some ''2024-01-02''\<rparr>"

section \<open>What each call does to the store, the clock and the record of calls\<close>

lemma since_append: "calls w' = calls w @ xs \<Longrightarrow> since w w' = xs"
  by (simp add: since_def)

lemma getTokens_table [simp]: "tokens_table (snd (getTokens e w)) = tokens_table w"
  by (simp add: getTokens_def await_def Let_def split: option.splits)

lemma getTokens_calls [simp]: "calls (snd (getTokens e w)) = calls w @ [Select]"
  by (simp add: getTokens_def await_def Let_def split: option.splits)

lemma getTokens_clock [simp]: "clock (snd (getTokens e w)) = elapse e (clock w)"
  by (simp add: getTokens_def await_def Let_def split: option.splits)

lemma getTokens_fst:
  "fst (getTokens e w) =
     (case db_error e (clock w) of Some m \<Rightarrow> Inl (QueryError m) | None \<Rightarrow> Inr (tokens_table w 1))"
  by (simp add: getTokens_def await_def Let_def split: option.splits)

lemma saveTokens_calls [simp]: "calls (snd (saveTokens e t w)) = calls w @ [Upsert t]"
  by (simp add: saveTokens_def await_def Let_def split: option.splits)

lemma saveTokens_clock [simp]: "clock (snd (saveTokens e t w)) = elapse e (clock w)"
  by (simp add: saveTokens_def await_def Let_def split: option.splits)

lemma saveTokens_table:
  "tokens_table (snd (saveTokens e t w)) =
     (case db_error e (clock w) of None \<Rightarrow> (tokens_table w)(1 \<mapsto> t) | Some m \<Rightarrow> tokens_table w)"
  by (simp add: saveTokens_def await_def Let_def split: option.splits)

lemma saveTokens_fst:
  "fst (saveTokens e t w) =
     (case db_error e (clock w) of None \<Rightarrow> Inr t | Some m \<Rightarrow> Inl (QueryError m))"
  by (simp add: saveTokens_def await_def Let_def split: option.splits)

lemma post_token_snd [simp]:
  "tokens_table (snd (post_token e g w)) = tokens_table w"
  "calls (snd (post_token e g w)) = calls w @ [TokenPost g]"
  "clock (snd (post_token e g w)) = elapse e (clock w)"
  by (simp_all add: post_token_def await_def)

lemma get_egvs_snd [simp]:
  "tokens_table (snd (get_egvs e t q w)) = tokens_table w"
  "calls (snd (get_egvs e t q w)) =
     calls w @ [EgvsGet (bearer (access_token t)) (startDate q) (endDate q)]"
  "clock (snd (get_egvs e t q w)) = elapse e (clock w)"
  by (simp_all add: get_egvs_def await_def)

text \<open>\<open>refreshToken\<close> with its steps named, the refresh token tested by \<open>truthy\<close>.\<close>

lemma refreshToken_cases:
  "refreshToken e w =
     (let w0 = w\<lparr>calls := calls w @ [RefreshCall]\<rparr>; w1 = snd (getTokens e w0) in
      case fst (getTokens e w0) of
        Inl err \<Rightarrow> (Inl err, w1)
      | Inr None \<Rightarrow> (Inl (JsError ''No refresh token available''), w1)
      | Inr (Some tokens) \<Rightarrow>
          if \<not> truthy (refresh_token tokens) then (Inl (JsError ''No refresh token available''), w1)
          else (case post_token e (refresh_token_grant (the (refresh_token tokens))) w1 of
                  (Inl err, w2) \<Rightarrow> (Inl err, w2)
                | (Inr data, w2) \<Rightarrow>
                    saveTokens e \<lparr>access_token = access_token data,
                                  refresh_token = refresh_token data,
                                  expires_at = clock w2 + expires_in data * 1000\<rparr> w2))"
  by (auto simp: refreshToken_def Let_def truthy_def split: prod.splits sum.splits option.splits)

lemma refreshToken_calls:
  "\<exists>rest. calls (snd (refreshToken e w)) = calls w @ RefreshCall # rest \<and> RefreshCall \<notin> set rest"
  unfolding refreshToken_cases Let_def
  by (auto split: sum.splits option.splits prod.splits
           simp: getTokens_fst dest!: arg_cong [where f = snd])

lemma refreshToken_other_rows:
  "k \<noteq> 1 \<Longrightarrow> tokens_table (snd (refreshToken e w)) k = tokens_table w k"
  unfolding refreshToken_cases Let_def
  by (auto split: sum.splits option.splits prod.splits
           simp: saveTokens_table dest!: arg_cong [where f = snd])

lemma resolve_ChartJSNodeCanvas:
  "resolve ''ChartJSNodeCanvas'' = Inl (ReferenceError ''ChartJSNodeCanvas'')"
  by (simp add: resolve_def module_scope_def runtime_globals_def)

text \<open>Whatever the store and the upstream answer, the charts handler never answers 200.\<close>

lemma charts_never_200: "status (fst (charts e q w)) \<noteq> 200"
  by (auto simp: charts_def json_def resolve_ChartJSNodeCanvas Let_def
           split: sum.splits prod.splits option.splits)

section \<open>The token store\<close>

text \<open>
  C9. Storing a token record with \<open>saveTokens\<close> and then loading with \<open>getTokens\<close> returns
  exactly the values that were stored: when the database accepts the upsert and the
  select that follows it, the upsert returns the record and the select returns the same
  access token, refresh token and expiry.
\<close>

theorem saveTokens_getTokens_roundtrip:
  assumes "db_error e (clock w) = None"
    and "db_error e (elapse e (clock w)) = None"
  shows "fst (saveTokens e t w) = Inr t \<and>
         fst (getTokens e (snd (saveTokens e t w))) = Inr (Some t)"
  using assms by (simp add: saveTokens_def getTokens_def await_def Let_def)

text \<open>The round trip on an empty store, for the record \<open>(A1, R1, 1000)\<close>.\<close>

theorem saveTokens_getTokens_roundtrip_witness:
  "db_error (sample_env []) (clock (empty_world 0)) = None \<and>
   db_error (sample_env []) (elapse (sample_env []) (clock (empty_world 0))) = None \<and>
   fst (getTokens (sample_env [])
         (snd (saveTokens (sample_env []) (sample_tokens (Some ''R1'')) (empty_world 0))))
     = Inr (Some \<lparr>access_token = Some ''A1'', refresh_token = Some ''R1'', expires_at = 1000\<rparr>)"
  using saveTokens_getTokens_roundtrip
          [of "sample_env []" "empty_world 0" "sample_tokens (Some ''R1'')"]
  by (simp add: sample_env_def empty_world_def sample_tokens_def)

section \<open>The trends computation\<close>

text \<open>
  C7. The trends computation applied to the reading values \<open>[100, 150, 200]\<close> yields exactly
  average 150, highest 200, lowest 100 and count 3.
\<close>

theorem trends_analysis_example:
  "trends_analysis [100, 150, 200] =
     \<lparr>average = Fin 150, highest = Fin 200, lowest = Fin 100, count = 3\<rparr>"
  by (simp add: trends_analysis_def js_divide_def Math_max_def Math_min_def)

text \<open>
  C1. The trends computation applied to an empty reading set should give a guarded,
  defined value. The handler has no guard: with a stored, unexpired token and an upstream
  answer without readings it responds 200 with the average \<open>0 / 0 = NaN\<close>, the highest
  value \<open>Math.max() = -Infinity\<close>, the lowest value \<open>Math.min() = Infinity\<close> and count 0.
\<close>

theorem trends_empty_readings:
  "fst (trends (sample_env []) sample_range (sample_world (Some ''R1'') 500)) =
     json 200 (analysis_body \<lparr>average = NaN, highest = NegInfinity, lowest = Infinity, count = 0\<rparr>)"
  by (simp add: trends_def getTokens_def get_egvs_def await_def axios_result_def Let_def
        sample_env_def sample_world_def sample_tokens_def sample_range_def truthy_def
        trends_analysis_def js_divide_def Math_max_def Math_min_def)

section \<open>The charts handler\<close>

text \<open>
  C2. A request to \<open>/charts\<close> with a stored, unexpired token and a successful upstream
  answer should return 200 with PNG bytes. server.js never binds \<open>ChartJSNodeCanvas\<close>, so
  the handler throws a \<open>ReferenceError\<close> before it renders anything and answers from its
  catch branch: status 500, body \<open>{error: 'Failed to generate chart'}\<close>.
\<close>

theorem charts_valid_token_500:
  "fst (charts (sample_env sample_readings) sample_range (sample_world (Some ''R1'') 500)) =
     json 500 (error_body ''Failed to generate chart'' None)"
  by (simp add: charts_def getTokens_def get_egvs_def await_def axios_result_def Let_def
        sample_env_def sample_world_def sample_tokens_def sample_range_def truthy_def
        resolve_ChartJSNodeCanvas)

section \<open>The glucose handler without a stored record\<close>

text \<open>
  C6. A request to \<open>/glucose\<close> made when no token record is stored (the select succeeds
  and finds no row with \<open>id = 1\<close>) is answered with status 401 and an error body.
\<close>

theorem glucose_without_record_401:
  assumes "db_error e (clock w) = None" and "tokens_table w 1 = None"
  shows "fst (glucose e q w) =
           json 401 (error_body ''Not authorized. Please complete OAuth flow first.'' None)"
  using assms by (simp add: glucose_def getTokens_def Let_def)

text \<open>On the empty store the status is 401.\<close>

theorem glucose_without_record_401_witness:
  "db_error (sample_env []) (clock (empty_world 0)) = None \<and>
   tokens_table (empty_world 0) 1 = None \<and>
   status (fst (glucose (sample_env []) sample_range (empty_world 0))) = 401"
  using glucose_without_record_401 [of "sample_env []" "empty_world 0" sample_range]
  by (simp add: sample_env_def empty_world_def json_def)

section \<open>The handlers: calls made, failures, and rows touched\<close>

lemma glucose_calls_expired:
  assumes "db_error e (clock w) = None" and "tokens_table w 1 = Some t"
    and "truthy (access_token t)" and "elapse e (clock w) > expires_at t"
  shows "\<exists>rest. calls (snd (glucose e q w)) = calls w @ Select # RefreshCall # rest
                \<and> RefreshCall \<notin> set rest"
proof -
  define w1 where "w1 = snd (getTokens e w)"
  have g: "getTokens e w = (Inr (Some t), w1)"
    using assms(1,2) by (simp add: w1_def getTokens_def Let_def)
  have c1: "calls w1 = calls w @ [Select]" and k1: "clock w1 = elapse e (clock w)"
    by (simp_all add: w1_def)
  obtain rest where r: "calls (snd (refreshToken e w1)) = calls w1 @ RefreshCall # rest"
    and nr: "RefreshCall \<notin> set rest"
    using refreshToken_calls [of e w1] by blast
  show ?thesis
    using assms(3,4) g k1 c1 r nr
    by (cases "refreshToken e w1")
       (auto simp: glucose_def resolve_ChartJSNodeCanvas
             split: sum.splits prod.splits dest!: arg_cong [where f = snd])
qed

lemma glucose_calls_fresh:
  assumes "db_error e (clock w) = None" and "tokens_table w 1 = Some t"
    and "truthy (access_token t)" and "\<not> elapse e (clock w) > expires_at t"
  shows "calls (snd (glucose e q w)) =
           calls w @ [Select, EgvsGet (bearer (access_token t)) (startDate q) (endDate q)]"
proof -
  define w1 where "w1 = snd (getTokens e w)"
  have g: "getTokens e w = (Inr (Some t), w1)"
    using assms(1,2) by (simp add: w1_def getTokens_def Let_def)
  have c1: "calls w1 = calls w @ [Select]" and k1: "clock w1 = elapse e (clock w)"
    by (simp_all add: w1_def)
  show ?thesis
    using assms(3,4) g k1 c1
    by (auto simp: glucose_def resolve_ChartJSNodeCanvas
             split: sum.splits prod.splits dest!: arg_cong [where f = snd])
qed

lemma glucose_refresh_failed_500:
  assumes "db_error e (clock w) = None" and "tokens_table w 1 = Some t"
    and "truthy (access_token t)" and "elapse e (clock w) > expires_at t"
    and "fst (refreshToken e (snd (getTokens e w))) = Inl err"
  shows "status (fst (glucose e q w)) = 500"
proof -
  define w1 where "w1 = snd (getTokens e w)"
  have g: "getTokens e w = (Inr (Some t), w1)"
    using assms(1,2) by (simp add: w1_def getTokens_def Let_def)
  have k1: "clock w1 = elapse e (clock w)"
    by (simp add: w1_def)
  from assms(5) have "fst (refreshToken e w1) = Inl err"
    by (simp add: w1_def)
  then show ?thesis
    using assms(3,4) g k1
    by (cases "refreshToken e w1") (simp add: glucose_def json_def glucose_failed_def)
qed

lemma glucose_other_rows:
  assumes "k \<noteq> 1"
  shows "tokens_table (snd (glucose e q w)) k = tokens_table w k"
proof -
  define w1 where "w1 = snd (getTokens e w)"
  have t1: "tokens_table w1 = tokens_table w"
    by (simp add: w1_def)
  have t2: "tokens_table (snd (refreshToken e w1)) k = tokens_table w k"
    using assms t1 by (simp add: refreshToken_other_rows)
  have g: "getTokens e w = (fst (getTokens e w), w1)"
    by (simp add: w1_def)
  show ?thesis
    using t1 t2
    by (subst glucose_def, subst g)
       (auto simp: resolve_ChartJSNodeCanvas
             split: sum.splits prod.splits option.splits dest!: arg_cong [where f = snd])
qed

lemma trends_calls_expired:
  assumes "db_error e (clock w) = None" and "tokens_table w 1 = Some t"
    and "truthy (access_token t)" and "elapse e (clock w) > expires_at t"
  shows "\<exists>rest. calls (snd (trends e q w)) = calls w @ Select # RefreshCall # rest
                \<and> RefreshCall \<notin> set rest"
proof -
  define w1 where "w1 = snd (getTokens e w)"
  have g: "getTokens e w = (Inr (Some t), w1)"
    using assms(1,2) by (simp add: w1_def getTokens_def Let_def)
  have c1: "calls w1 = calls w @ [Select]" and k1: "clock w1 = elapse e (clock w)"
    by (simp_all add: w1_def)
  obtain rest where r: "calls (snd (refreshToken e w1)) = calls w1 @ RefreshCall # rest"
    and nr: "RefreshCall \<notin> set rest"
    using refreshToken_calls [of e w1] by blast
  show ?thesis
    using assms(3,4) g k1 c1 r nr
    by (cases "refreshToken e w1")
       (auto simp: trends_def resolve_ChartJSNodeCanvas
             split: sum.splits prod.splits dest!: arg_cong [where f = snd])
qed

lemma trends_calls_fresh:
  assumes "db_error e (clock w) = None" and "tokens_table w 1 = Some t"
    and "truthy (access_token t)" and "\<not> elapse e (clock w) > expires_at t"
  shows "calls (snd (trends e q w)) =
           calls w @ [Select, EgvsGet (bearer (access_token t)) (startDate q) (endDate q)]"
proof -
  define w1 where "w1 = snd (getTokens e w)"
  have g: "getTokens e w = (Inr (Some t), w1)"
    using assms(1,2) by (simp add: w1_def getTokens_def Let_def)
  have c1: "calls w1 = calls w @ [Select]" and k1: "clock w1 = elapse e (clock w)"
    by (simp_all add: w1_def)
  show ?thesis
    using assms(3,4) g k1 c1
    by (auto simp: trends_def resolve_ChartJSNodeCanvas
             split: sum.splits prod.splits dest!: arg_cong [where f = snd])
qed

lemma trends_refresh_failed_500:
  assumes "db_error e (clock w) = None" and "tokens_table w 1 = Some t"
    and "truthy (access_token t)" and "elapse e (clock w) > expires_at t"
    and "fst (refreshToken e (snd (getTokens e w))) = Inl err"
  shows "status (fst (trends e q w)) = 500"
proof -
  define w1 where "w1 = snd (getTokens e w)"
  have g: "getTokens e w = (Inr (Some t), w1)"
    using assms(1,2) by (simp add: w1_def getTokens_def Let_def)
  have k1: "clock w1 = elapse e (clock w)"
    by (simp add: w1_def)
  from assms(5) have "fst (refreshToken e w1) = Inl err"
    by (simp add: w1_def)
  then show ?thesis
    using assms(3,4) g k1
    by (cases "refreshToken e w1") (simp add: trends_def json_def glucose_failed_def)
qed

lemma trends_other_rows:
  assumes "k \<noteq> 1"
  shows "tokens_table (snd (trends e q w)) k = tokens_table w k"
proof -
  define w1 where "w1 = snd (getTokens e w)"
  have t1: "tokens_table w1 = tokens_table w"
    by (simp add: w1_def)
  have t2: "tokens_table (snd (refreshToken e w1)) k = tokens_table w k"
    using assms t1 by (simp add: refreshToken_other_rows)
  have g: "getTokens e w = (fst (getTokens e w), w1)"
    by (simp add: w1_def)
  show ?thesis
    using t1 t2
    by (subst trends_def, subst g)
       (auto simp: resolve_ChartJSNodeCanvas
             split: sum.splits prod.splits option.splits dest!: arg_cong [where f = snd])
qed

lemma charts_calls_expired:
  assumes "db_error e (clock w) = None" and "tokens_table w 1 = Some t"
    and "truthy (access_token t)" and "elapse e (clock w) > expires_at t"
  shows "\<exists>rest. calls (snd (charts e q w)) = calls w @ Select # RefreshCall # rest
                \<and> RefreshCall \<notin> set rest"
proof -
  define w1 where "w1 = snd (getTokens e w)"
  have g: "getTokens e w = (Inr (Some t), w1)"
    using assms(1,2) by (simp add: w1_def getTokens_def Let_def)
  have c1: "calls w1 = calls w @ [Select]" and k1: "clock w1 = elapse e (clock w)"
    by (simp_all add: w1_def)
  obtain rest where r: "calls (snd (refreshToken e w1)) = calls w1 @ RefreshCall # rest"
    and nr: "RefreshCall \<notin> set rest"
    using refreshToken_calls [of e w1] by blast
  show ?thesis
    using assms(3,4) g k1 c1 r nr
    by (cases "refreshToken e w1")
       (auto simp: charts_def resolve_ChartJSNodeCanvas
             split: sum.splits prod.splits dest!: arg_cong [where f = snd])
qed

lemma charts_calls_fresh:
  assumes "db_error e (clock w) = None" and "tokens_table w 1 = Some t"
    and "truthy (access_token t)" and "\<not> elapse e (clock w) > expires_at t"
  shows "calls (snd (charts e q w)) =
           calls w @ [Select, EgvsGet (bearer (access_token t)) (startDate q) (endDate q)]"
proof -
  define w1 where "w1 = snd (getTokens e w)"
  have g: "getTokens e w = (Inr (Some t), w1)"
    using assms(1,2) by (simp add: w1_def getTokens_def Let_def)
  have c1: "calls w1 = calls w @ [Select]" and k1: "clock w1 = elapse e (clock w)"
    by (simp_all add: w1_def)
  show ?thesis
    using assms(3,4) g k1 c1
    by (auto simp: charts_def resolve_ChartJSNodeCanvas
             split: sum.splits prod.splits dest!: arg_cong [where f = snd])
qed

lemma charts_refresh_failed_500:
  assumes "db_error e (clock w) = None" and "tokens_table w 1 = Some t"
    and "truthy (access_token t)" and "elapse e (clock w) > expires_at t"
    and "fst (refreshToken e (snd (getTokens e w))) = Inl err"
  shows "status (fst (charts e q w)) = 500"
proof -
  define w1 where "w1 = snd (getTokens e w)"
  have g: "getTokens e w = (Inr (Some t), w1)"
    using assms(1,2) by (simp add: w1_def getTokens_def Let_def)
  have k1: "clock w1 = elapse e (clock w)"
    by (simp add: w1_def)
  from assms(5) have "fst (refreshToken e w1) = Inl err"
    by (simp add: w1_def)
  then show ?thesis
    using assms(3,4) g k1
    by (cases "refreshToken e w1") (simp add: charts_def json_def glucose_failed_def)
qed

lemma charts_other_rows:
  assumes "k \<noteq> 1"
  shows "tokens_table (snd (charts e q w)) k = tokens_table w k"
proof -
  define w1 where "w1 = snd (getTokens e w)"
  have t1: "tokens_table w1 = tokens_table w"
    by (simp add: w1_def)
  have t2: "tokens_table (snd (refreshToken e w1)) k = tokens_table w k"
    using assms t1 by (simp add: refreshToken_other_rows)
  have g: "getTokens e w = (fst (getTokens e w), w1)"
    by (simp add: w1_def)
  show ?thesis
    using t1 t2
    by (subst charts_def, subst g)
       (auto simp: resolve_ChartJSNodeCanvas
             split: sum.splits prod.splits option.splits dest!: arg_cong [where f = snd])
qed

lemma auth_callback_other_rows:
  "k \<noteq> 1 \<Longrightarrow> tokens_table (snd (auth_callback e code w)) k = tokens_table w k"
  by (auto simp: auth_callback_def Let_def saveTokens_table
           split: sum.splits prod.splits option.splits dest!: arg_cong [where f = snd])

lemma auth_refresh_other_rows:
  "k \<noteq> 1 \<Longrightarrow> tokens_table (snd (auth_refresh e w)) k = tokens_table w k"
  by (auto simp: auth_refresh_def refreshToken_other_rows
           split: sum.splits prod.splits dest!: arg_cong [where f = snd])

lemma handle_other_rows:
  "k \<noteq> 1 \<Longrightarrow> tokens_table (snd (handle e r w)) k = tokens_table w k"
  by (cases r)
     (simp_all add: auth_callback_other_rows auth_refresh_other_rows glucose_other_rows
        trends_other_rows charts_other_rows)

lemma serve_other_rows:
  "k \<noteq> 1 \<Longrightarrow> tokens_table (serve e rs w) k = tokens_table w k"
  by (induction rs arbitrary: w) (simp_all add: handle_other_rows)

text \<open>Two authorization-code exchanges in a row leave the record of the second.\<close>

lemma serve_two_callbacks:
  "tokens_table (serve (sample_env [])
      [POST_auth_callback (Some ''code1''), POST_auth_callback (Some ''code2'')]
      (empty_world 0)) =
   [1 \<mapsto> \<lparr>access_token = Some ''A2'', refresh_token = Some ''R2'', expires_at = 7200015\<rparr>]"
  by (simp add: auth_callback_def post_token_def saveTokens_def await_def axios_result_def
        Let_def sample_env_def empty_world_def)

section \<open>The token refresher\<close>

text \<open>
  C5. A successful invocation of the token refresher: a refresh token is stored, the
  upstream exchange answers with a pair and a lifetime of \<open>expires_in\<close> seconds, and the
  database accepts the select and the upsert. Then the stored record is overwritten with the
  new pair, its \<open>expires_at\<close> is the clock value at the moment the answer has arrived plus
  1000 times the lifetime, and \<open>refreshToken\<close> returns exactly this record.
\<close>

theorem refreshToken_success:
  assumes "db_error e (clock w) = None"
    and "tokens_table w 1 = Some t"
    and "refresh_token t = Some rt" and "rt \<noteq> []"
    and "oauth2_token e (elapse e (clock w)) (refresh_token_grant rt) = Inr d"
    and "db_error e (elapse e (elapse e (clock w))) = None"
  shows "fst (refreshToken e w) =
           Inr \<lparr>access_token = access_token d, refresh_token = refresh_token d,
                expires_at = elapse e (elapse e (clock w)) + expires_in d * 1000\<rparr> \<and>
         tokens_table (snd (refreshToken e w)) =
           (tokens_table w)(1 \<mapsto> \<lparr>access_token = access_token d, refresh_token = refresh_token d,
                expires_at = elapse e (elapse e (clock w)) + expires_in d * 1000\<rparr>)"
  using assms
  by (simp add: refreshToken_def getTokens_def post_token_def saveTokens_def await_def
        axios_result_def Let_def)

text \<open>At time 2000 with calls of 5 ms, a lifetime of 7200 s gives the expiry 7202010.\<close>

theorem refreshToken_success_witness:
  "db_error (sample_env []) (clock (sample_world (Some ''R1'') 2000)) = None \<and>
   tokens_table (sample_world (Some ''R1'') 2000) 1 = Some (sample_tokens (Some ''R1'')) \<and>
   refresh_token (sample_tokens (Some ''R1'')) = Some ''R1'' \<and> ''R1'' \<noteq> [] \<and>
   oauth2_token (sample_env []) (elapse (sample_env []) (clock (sample_world (Some ''R1'') 2000)))
       (refresh_token_grant ''R1'')
     = Inr \<lparr>access_token = Some ''A2'', refresh_token = Some ''R2'', expires_in = 7200\<rparr> \<and>
   db_error (sample_env [])
       (elapse (sample_env []) (elapse (sample_env []) (clock (sample_world (Some ''R1'') 2000))))
     = None \<and>
   fst (refreshToken (sample_env []) (sample_world (Some ''R1'') 2000)) =
     Inr \<lparr>access_token = Some ''A2'', refresh_token = Some ''R2'', expires_at = 7202010\<rparr> \<and>
   tokens_table (snd (refreshToken (sample_env []) (sample_world (Some ''R1'') 2000))) 1 =
     Some \<lparr>access_token = Some ''A2'', refresh_token = Some ''R2'', expires_at = 7202010\<rparr>"
  using refreshToken_success
          [of "sample_env []" "sample_world (Some ''R1'') 2000" "sample_tokens (Some ''R1'')" "''R1''"
              "\<lparr>access_token = Some ''A2'', refresh_token = Some ''R2'', expires_in = 7200\<rparr>"]
  by (simp add: sample_env_def sample_world_def sample_tokens_def)

text \<open>
  C10. A failing invocation of the token refresher leaves the stored record unchanged.
  When the failure is not a rejected query, that is when no refresh token is stored (a
  \<open>JsError\<close>) or the upstream exchange fails (an \<open>AxiosError\<close>), no upsert has been
  attempted either: the error is raised before any save.
\<close>

theorem refreshToken_failure_keeps_record:
  assumes "fst (refreshToken e w) = Inl err"
  shows "tokens_table (snd (refreshToken e w)) = tokens_table w \<and>
         ((\<forall>m. err \<noteq> QueryError m) \<longrightarrow> (\<forall>t. Upsert t \<notin> set (since w (snd (refreshToken e w)))))"
  using assms unfolding refreshToken_cases Let_def
  by (auto split: sum.splits option.splits prod.splits if_splits
           simp: saveTokens_table saveTokens_fst since_def dest!: arg_cong [where f = snd])

text \<open>A stored record without a refresh token: the refresh fails and nothing is saved.\<close>

theorem refreshToken_failure_keeps_record_witness:
  "fst (refreshToken (sample_env []) (sample_world None 2000)) =
     Inl (JsError ''No refresh token available'') \<and>
   tokens_table (snd (refreshToken (sample_env []) (sample_world None 2000))) =
     tokens_table (sample_world None 2000) \<and>
   (\<forall>t. Upsert t \<notin> set (since (sample_world None 2000)
                            (snd (refreshToken (sample_env []) (sample_world None 2000)))))"
proof -
  have f: "fst (refreshToken (sample_env []) (sample_world None 2000)) =
             Inl (JsError ''No refresh token available'')"
    by (simp add: refreshToken_def getTokens_def await_def Let_def
          sample_env_def sample_world_def sample_tokens_def)
  from refreshToken_failure_keeps_record [OF f] f show ?thesis by simp
qed

section \<open>A single record\<close>

text \<open>
  C8. At most one token record ever exists. Starting from a table with no row other than
  the row with \<open>id = 1\<close>, any sequence of requests (authorization-code exchanges and
  refreshes among them) leaves no row other than that one, and a successful save
  after it leaves exactly the one record saved: it overwrites in place.
\<close>

theorem single_token_record:
  assumes "dom (tokens_table w) \<subseteq> {1}"
  shows "dom (tokens_table (serve e rs w)) \<subseteq> {1} \<and>
         (db_error e (clock (serve e rs w)) = None \<longrightarrow>
            tokens_table (snd (saveTokens e t (serve e rs w))) = [1 \<mapsto> t])"
proof -
  have other: "tokens_table (serve e rs w) k = None" if "k \<noteq> 1" for k
  proof -
    from that assms have "tokens_table w k = None" by blast
    with that show ?thesis by (simp add: serve_other_rows)
  qed
  have d: "dom (tokens_table (serve e rs w)) \<subseteq> {1}"
  proof
    fix k assume "k \<in> dom (tokens_table (serve e rs w))"
    then have "tokens_table (serve e rs w) k \<noteq> None" by auto
    with other [of k] show "k \<in> {1}" by auto
  qed
  have "(tokens_table (serve e rs w))(1 \<mapsto> t) = [1 \<mapsto> t]"
    using other by (auto simp: fun_eq_iff)
  with d show ?thesis
    by (simp add: saveTokens_table)
qed

text \<open>Two authorization-code exchanges on the empty store, then one more save.\<close>

theorem single_token_record_witness:
  "dom (tokens_table (empty_world 0)) \<subseteq> {1} \<and>
   dom (tokens_table (serve (sample_env [])
          [POST_auth_callback (Some ''code1''), POST_auth_callback (Some ''code2'')]
          (empty_world 0))) \<subseteq> {1} \<and>
   tokens_table (serve (sample_env [])
          [POST_auth_callback (Some ''code1''), POST_auth_callback (Some ''code2'')]
          (empty_world 0)) 1 =
     Some \<lparr>access_token = Some ''A2'', refresh_token = Some ''R2'', expires_at = 7200015\<rparr> \<and>
   db_error (sample_env []) (clock (serve (sample_env [])
          [POST_auth_callback (Some ''code1''), POST_auth_callback (Some ''code2'')]
          (empty_world 0))) = None \<and>
   tokens_table (snd (saveTokens (sample_env []) (sample_tokens None) (serve (sample_env [])
          [POST_auth_callback (Some ''code1''), POST_auth_callback (Some ''code2'')]
          (empty_world 0)))) = [1 \<mapsto> sample_tokens None]"
proof -
  have h: "dom (tokens_table (empty_world 0)) \<subseteq> {1}"
    by (simp add: empty_world_def)
  have d: "db_error (sample_env []) c = None" for c
    by (simp add: sample_env_def)
  have x: "tokens_table (serve (sample_env [])
          [POST_auth_callback (Some ''code1''), POST_auth_callback (Some ''code2'')]
          (empty_world 0)) 1 =
     Some \<lparr>access_token = Some ''A2'', refresh_token = Some ''R2'', expires_at = 7200015\<rparr>"
    by (simp only: serve_two_callbacks) simp
  from single_token_record [OF h, of "sample_env []"
         "[POST_auth_callback (Some ''code1''), POST_auth_callback (Some ''code2'')]"
         "sample_tokens None"] h d x
  show ?thesis by (simp del: serve.simps)
qed

section \<open>Expired tokens in the data-fetch handlers\<close>

text \<open>
  C3, as stated, fails: with the stored record \<open>(A1, no refresh token, expires_at 1000)\<close>
  at time 2000, each of the three handlers answers 500, not 401.
\<close>

theorem expired_without_refresh_token_500:
  "status (fst (glucose (sample_env []) sample_range (sample_world None 2000))) = 500 \<and>
   status (fst (trends (sample_env []) sample_range (sample_world None 2000))) = 500 \<and>
   status (fst (charts (sample_env []) sample_range (sample_world None 2000))) = 500"
  by (simp add: glucose_def trends_def charts_def refreshToken_def getTokens_def await_def Let_def
        sample_env_def sample_world_def sample_tokens_def truthy_def json_def glucose_failed_def)

text \<open>
  C3, amended. A data-fetch request (glucose, trends, charts) with a stored access token
  whose \<open>expires_at\<close> is past and whose refresh fails (for instance because no refresh token
  is stored) is answered from the handler's catch branch with status 500.
\<close>

theorem expired_refresh_failure_500:
  assumes "r \<in> {GET_glucose q, GET_trends q, GET_charts q}"
    and "db_error e (clock w) = None" and "tokens_table w 1 = Some t"
    and "truthy (access_token t)" and "expires_at t < elapse e (clock w)"
    and "fst (refreshToken e (snd (getTokens e w))) = Inl err"
  shows "status (fst (handle e r w)) = 500"
  using assms(1) glucose_refresh_failed_500 [OF assms(2-6)]
    trends_refresh_failed_500 [OF assms(2-6)] charts_refresh_failed_500 [OF assms(2-6)]
  by auto

text \<open>The trends handler on the expired record without a refresh token.\<close>

theorem expired_refresh_failure_500_witness:
  "GET_trends sample_range \<in> {GET_glucose sample_range, GET_trends sample_range, GET_charts sample_range} \<and>
   db_error (sample_env []) (clock (sample_world None 2000)) = None \<and>
   tokens_table (sample_world None 2000) 1 = Some (sample_tokens None) \<and>
   truthy (access_token (sample_tokens None)) \<and>
   expires_at (sample_tokens None) < elapse (sample_env []) (clock (sample_world None 2000)) \<and>
   fst (refreshToken (sample_env []) (snd (getTokens (sample_env []) (sample_world None 2000))))
     = Inl (JsError ''No refresh token available'') \<and>
   status (fst (handle (sample_env []) (GET_trends sample_range) (sample_world None 2000))) = 500"
proof -
  have m: "GET_trends sample_range \<in>
             {GET_glucose sample_range, GET_trends sample_range, GET_charts sample_range}"
    by simp
  have d: "db_error (sample_env []) (clock (sample_world None 2000)) = None"
    by (simp add: sample_env_def)
  have s: "tokens_table (sample_world None 2000) 1 = Some (sample_tokens None)"
    by (simp add: sample_world_def)
  have a: "truthy (access_token (sample_tokens None))"
    by (simp add: sample_tokens_def truthy_def)
  have x: "expires_at (sample_tokens None) < elapse (sample_env []) (clock (sample_world None 2000))"
    by (simp add: sample_tokens_def sample_env_def sample_world_def)
  have f: "fst (refreshToken (sample_env []) (snd (getTokens (sample_env []) (sample_world None 2000))))
             = Inl (JsError ''No refresh token available'')"
    by (simp add: refreshToken_def getTokens_def await_def Let_def
          sample_env_def sample_world_def sample_tokens_def)
  from expired_refresh_failure_500 [OF m d s a x f] m d s a x f
  show ?thesis by blast
qed

text \<open>
  C4. A data-fetch request (glucose, trends, charts) with a stored access token, the
  select succeeding. If the time read after the select is past \<open>expires_at\<close>, the calls of
  the handler are the select, one entry into \<open>refreshToken\<close>, and calls among which there
  is no further entry: the refresher is invoked exactly once, before any upstream data
  call. Otherwise the calls are the select and the upstream data call, with the stored
  access token, and no refresh.
\<close>

theorem refresh_once_iff_expired:
  assumes "r \<in> {GET_glucose q, GET_trends q, GET_charts q}"
    and "db_error e (clock w) = None" and "tokens_table w 1 = Some t"
    and "truthy (access_token t)"
  shows "if expires_at t < elapse e (clock w)
         then \<exists>rest. since w (snd (handle e r w)) = Select # RefreshCall # rest
                      \<and> RefreshCall \<notin> set rest
         else since w (snd (handle e r w)) =
                [Select, EgvsGet (bearer (access_token t)) (startDate q) (endDate q)]"
proof (cases "expires_at t < elapse e (clock w)")
  case True
  have "\<exists>rest. calls (snd (handle e r w)) = calls w @ Select # RefreshCall # rest
                \<and> RefreshCall \<notin> set rest"
    using assms(1) glucose_calls_expired [OF assms(2-4) True]
      trends_calls_expired [OF assms(2-4) True] charts_calls_expired [OF assms(2-4) True]
    by auto
  with True show ?thesis
    by (auto simp: since_def)
next
  case False
  have "calls (snd (handle e r w)) =
          calls w @ [Select, EgvsGet (bearer (access_token t)) (startDate q) (endDate q)]"
    using assms(1) glucose_calls_fresh [OF assms(2-4) False]
      trends_calls_fresh [OF assms(2-4) False] charts_calls_fresh [OF assms(2-4) False]
    by auto
  with False show ?thesis
    by (simp add: since_def)
qed

text \<open>The record expiring at 1000, requested at time 2000 (expired) and at time 500.\<close>

theorem refresh_once_iff_expired_witness:
  "GET_glucose sample_range \<in> {GET_glucose sample_range, GET_trends sample_range, GET_charts sample_range} \<and>
   db_error (sample_env []) 2000 = None \<and>
   tokens_table (sample_world (Some ''R1'') 2000) 1 = Some (sample_tokens (Some ''R1'')) \<and>
   tokens_table (sample_world (Some ''R1'') 500) 1 = Some (sample_tokens (Some ''R1'')) \<and>
   truthy (access_token (sample_tokens (Some ''R1''))) \<and>
   expires_at (sample_tokens (Some ''R1'')) < elapse (sample_env []) 2000 \<and>
   (\<exists>rest. since (sample_world (Some ''R1'') 2000)
             (snd (handle (sample_env []) (GET_glucose sample_range) (sample_world (Some ''R1'') 2000)))
           = Select # RefreshCall # rest \<and> RefreshCall \<notin> set rest) \<and>
   \<not> expires_at (sample_tokens (Some ''R1'')) < elapse (sample_env []) 500 \<and>
   since (sample_world (Some ''R1'') 500)
     (snd (handle (sample_env []) (GET_glucose sample_range) (sample_world (Some ''R1'') 500)))
     = [Select, EgvsGet ''Bearer A1'' (Some ''2024-01-01'') (Some ''2024-01-02'')]"
proof -
  have m: "GET_glucose sample_range \<in>
             {GET_glucose sample_range, GET_trends sample_range, GET_charts sample_range}"
    by simp
  have d: "db_error (sample_env []) c = None" for c
    by (simp add: sample_env_def)
  have k: "clock (sample_world rt c) = c" for rt c
    by (simp add: sample_world_def)
  have s: "tokens_table (sample_world (Some ''R1'') c) 1 = Some (sample_tokens (Some ''R1''))" for c
    by (simp add: sample_world_def)
  have a: "truthy (access_token (sample_tokens (Some ''R1'')))"
    by (simp add: sample_tokens_def truthy_def)
  have x: "expires_at (sample_tokens (Some ''R1'')) = 1000"
          "elapse (sample_env []) c = c + 5" for c
    by (simp_all add: sample_tokens_def sample_env_def)
  have b: "bearer (access_token (sample_tokens (Some ''R1''))) = ''Bearer A1''"
          "startDate sample_range = Some ''2024-01-01''" "endDate sample_range = Some ''2024-01-02''"
    by (simp_all add: bearer_def sample_tokens_def sample_range_def)
  from refresh_once_iff_expired [OF m, of "sample_env []" "sample_world (Some ''R1'') 2000"
         "sample_tokens (Some ''R1'')"]
       refresh_once_iff_expired [OF m, of "sample_env []" "sample_world (Some ''R1'') 500"
         "sample_tokens (Some ''R1'')"]
  show ?thesis
    by (simp add: d k s a x b)
qed

end
